theory Spec2Isabelle
  imports Main
begin

section \<open>JavaScript values used by the components\<close>

text \<open>
  A JavaScript number that comes out of \<^verbatim>\<open>parseInt\<close> is either \<^verbatim>\<open>NaN\<close> or an
  integer. Integers are kept exact here (the rounding of a double beyond \<open>2^53\<close> is
  outside the model), and \<open>-0\<close> is \<open>0\<close>.
\<close>

datatype jsnum = NaN | Num int

text \<open>
  An array read at an index outside the array gives \<^verbatim>\<open>undefined\<close>;
  \<^verbatim>\<open>null\<close> is a value of its own.
\<close>

datatype 'a js = Undefined | Null | Val 'a

datatype js_error = TypeError

subsection \<open>\<^verbatim>\<open>String.prototype.replace\<close> with a string pattern\<close>

text \<open>
  \<^verbatim>\<open>s.replace(pat, rep)\<close> with a string pattern replaces the first occurrence of
  \<open>pat\<close> in \<open>s\<close>, wherever it stands, and returns \<open>s\<close> when there is none.
\<close>

fun replace :: "string \<Rightarrow> string \<Rightarrow> string \<Rightarrow> string" where
  "replace pat rep [] = (if pat = [] then rep else [])"
| "replace pat rep (c # cs) =
     (if take (length pat) (c # cs) = pat then rep @ drop (length pat) (c # cs)
      else c # replace pat rep cs)"

subsection \<open>\<^verbatim>\<open>parseInt\<close> with one argument\<close>

text \<open>
  \<^verbatim>\<open>parseInt(s)\<close>: leading white space is dropped, one sign is read, a \<^verbatim>\<open>0x\<close> or
  \<^verbatim>\<open>0X\<close> prefix switches the radix from 10 to 16, and the longest run of digits of
  that radix is read. No digit gives \<^verbatim>\<open>NaN\<close>. Characters are the 8-bit ones of
  \<^typ>\<open>char\<close>, so the white space is the white space below \<open>256\<close>.
\<close>

definition isWhiteSpace :: "char \<Rightarrow> bool" where
  "isWhiteSpace c = (of_char c \<in> {9, 10, 11, 12, 13, 32, 160 :: nat})"

definition digitValue :: "char \<Rightarrow> nat option" where
  "digitValue c =
     (let n = (of_char c :: nat) in
      if 48 \<le> n \<and> n \<le> 57 then Some (n - 48)
      else if 97 \<le> n \<and> n \<le> 122 then Some (n - 87)
      else if 65 \<le> n \<and> n \<le> 90 then Some (n - 55)
      else None)"

definition isRadixDigit :: "nat \<Rightarrow> char \<Rightarrow> bool" where
  "isRadixDigit R c = (case digitValue c of None \<Rightarrow> False | Some d \<Rightarrow> d < R)"

definition radixValue :: "nat \<Rightarrow> string \<Rightarrow> nat" where
  "radixValue R Z =
     foldl (\<lambda>acc c. acc * R + (case digitValue c of None \<Rightarrow> 0 | Some d \<Rightarrow> d)) 0 Z"

definition parseInt :: "string \<Rightarrow> jsnum" where
  "parseInt inputString =
     (let S = dropWhile isWhiteSpace inputString;
          sign = (if take 1 S = ''-'' then - 1 else (1 :: int));
          S1 = (if take 1 S = ''+'' \<or> take 1 S = ''-'' then drop 1 S else S);
          hex = (take 2 S1 = ''0x'' \<or> take 2 S1 = ''0X'');
          R = (if hex then 16 else 10);
          S2 = (if hex then drop 2 S1 else S1);
          Z = takeWhile (isRadixDigit R) S2
      in if Z = [] then NaN else Num (sign * int (radixValue R Z)))"

section \<open>The exercise editor: \<^verbatim>\<open>IdeComponent\<close>\<close>

text \<open>
  The state of the component is its six \<^verbatim>\<open>useState\<close> cells. The prop
  \<^verbatim>\<open>exercise\<close> is a parameter of the handler that reads it. The prop
  \<^verbatim>\<open>onComplete\<close> is a callback of the parent: the field \<open>onComplete\<close> records the
  arguments it has been called with, oldest first, and a call is taken to return.
  A handler runs on the state of the latest render.
\<close>

record ide =
  code :: string
  tries :: int
  solutionViewer :: bool
  showSolutionButton :: bool
  completedExerciseNumber :: int
  isModalOpen :: bool
  onComplete :: "int list"

definition IdeComponent :: ide where
  "IdeComponent =
     \<lparr>code = [], tries = 0, solutionViewer = False, showSolutionButton = False,
      completedExerciseNumber = 0, isModalOpen = False, onComplete = []\<rparr>"

text \<open>
  \<^verbatim>\<open>submissionHandler(isCorrect)\<close>. The comparison
  \<^verbatim>\<open>currentExerciseNumber > completedExerciseNumber\<close> is false when the left side is
  \<^verbatim>\<open>NaN\<close>.
\<close>

definition submissionHandler :: "string \<Rightarrow> bool \<Rightarrow> ide \<Rightarrow> ide" where
  "submissionHandler exercise isCorrect s =
     (if isCorrect then
        (let currentExerciseNumber = parseInt (replace ''exercise'' '''' exercise);
             s1 = (case currentExerciseNumber of
                     NaN \<Rightarrow> s
                   | Num n \<Rightarrow>
                       if n > completedExerciseNumber s
                       then s\<lparr>onComplete := onComplete s @ [n], completedExerciseNumber := n\<rparr>
                       else s)
         in s1\<lparr>solutionViewer := False, tries := 0\<rparr>)
      else
        (let newTries = tries s + 1;
             s1 = (if newTries > 2 then s\<lparr>solutionViewer := True\<rparr> else s)
         in s1\<lparr>tries := newTries\<rparr>))"

definition handleSolutionButtonClick :: "bool \<Rightarrow> ide \<Rightarrow> ide" where
  "handleSolutionButtonClick reveal s =
     s\<lparr>showSolutionButton := \<not> showSolutionButton s, solutionViewer := reveal, tries := 0\<rparr>"

text \<open>
  The effect of the component,
  \<^verbatim>\<open>useEffect(() => { if (completedExerciseNumber === 5) setIsModalOpen(true) }, [completedExerciseNumber])\<close>.
  Its body opens the completion dialog when the counter is 5; the first component of
  the result says whether it did.
\<close>

definition useEffect :: "ide \<Rightarrow> bool \<times> ide" where
  "useEffect s =
     (if completedExerciseNumber s = 5 then (True, s\<lparr>isModalOpen := True\<rparr>) else (False, s))"

text \<open>
  The events the component handles: a verdict from the editor or the submit button
  (with the \<^verbatim>\<open>exercise\<close> prop of that render), a click on one of the two
  solution buttons, the dialog's \<^verbatim>\<open>isClose\<close>, and the editor's
  \<^verbatim>\<open>onChange\<close>, which stores \<^verbatim>\<open>code || ""\<close>.
\<close>

datatype event =
    Submission string bool
  | SolutionButtonClick bool
  | ModalClose
  | CodeChange "string js"

fun handler :: "event \<Rightarrow> ide \<Rightarrow> ide" where
  "handler (Submission exercise isCorrect) s = submissionHandler exercise isCorrect s"
| "handler (SolutionButtonClick reveal) s = handleSolutionButtonClick reveal s"
| "handler ModalClose s = s\<lparr>isModalOpen := False\<rparr>"
| "handler (CodeChange c) s = s\<lparr>code := (case c of Val v \<Rightarrow> v | _ \<Rightarrow> [])\<rparr>"

text \<open>
  One event and the render that follows it: the effect runs only when its dependency
  \<^verbatim>\<open>completedExerciseNumber\<close> differs from the one of the previous render.
\<close>

definition dispatch :: "event \<Rightarrow> ide \<Rightarrow> bool \<times> ide" where
  "dispatch ev s =
     (let s' = handler ev s
      in if completedExerciseNumber s' \<noteq> completedExerciseNumber s then useEffect s'
         else (False, s'))"

fun run :: "ide \<Rightarrow> event list \<Rightarrow> (bool \<times> ide) list" where
  "run s [] = []"
| "run s (ev # evs) = dispatch ev s # run (snd (dispatch ev s)) evs"

text \<open>
  A session is the life of one mounted component: the effect runs once after the first
  render, then every event is dispatched in turn. Entry \<open>0\<close> of the result belongs to
  the mount, entry \<open>k + 1\<close> to the \<open>k\<close>-th event; each entry holds whether the dialog
  was opened by the effect at that step, and the state after the step.
\<close>

definition session :: "event list \<Rightarrow> (bool \<times> ide) list" where
  "session evs = useEffect IdeComponent # run (snd (useEffect IdeComponent)) evs"

subsection \<open>The exercise's template and solution\<close>

text \<open>
  The constants \<^verbatim>\<open>CODE_SOLUTIONS\<close> and \<^verbatim>\<open>CODE_EXERCISES\<close> are parameters:
  each is a plain object whose own properties take a lesson key to a plain object whose
  own properties take an exercise name to a text. A parameter gives the own properties;
  the prototype of every such object is \<^verbatim>\<open>Object.prototype\<close>.

  Reading \<^verbatim>\<open>obj[key]\<close> on a plain object gives the own property when there is one,
  otherwise the property that \<^verbatim>\<open>Object.prototype\<close> has under that name, otherwise
  \<^verbatim>\<open>undefined\<close>. The built-in objects are those of ECMAScript 2024 with its Annex B.
\<close>

datatype jsvalue = JSUndefined | JSNull | JSString string | JSNumber int | Intrinsic string

text \<open>
  \<open>Intrinsic n\<close> is the built-in object with the global name \<open>n\<close>, such as
  \<^verbatim>\<open>Object.prototype.toString\<close>. The ten functions stored in
  \<^verbatim>\<open>Object.prototype\<close>, with their \<^verbatim>\<open>name\<close> and \<^verbatim>\<open>length\<close>:
\<close>

datatype builtin_method =
    hasOwnProperty | isPrototypeOf | propertyIsEnumerable | toLocaleString | toString
  | valueOf | defineGetter | defineSetter | lookupGetter | lookupSetter

fun method_name :: "builtin_method \<Rightarrow> string" where
  "method_name hasOwnProperty = ''hasOwnProperty''"
| "method_name isPrototypeOf = ''isPrototypeOf''"
| "method_name propertyIsEnumerable = ''propertyIsEnumerable''"
| "method_name toLocaleString = ''toLocaleString''"
| "method_name toString = ''toString''"
| "method_name valueOf = ''valueOf''"
| "method_name defineGetter = ''__defineGetter__''"
| "method_name defineSetter = ''__defineSetter__''"
| "method_name lookupGetter = ''__lookupGetter__''"
| "method_name lookupSetter = ''__lookupSetter__''"

fun method_length :: "builtin_method \<Rightarrow> int" where
  "method_length hasOwnProperty = 1"
| "method_length isPrototypeOf = 1"
| "method_length propertyIsEnumerable = 1"
| "method_length toLocaleString = 0"
| "method_length toString = 0"
| "method_length valueOf = 0"
| "method_length defineGetter = 2"
| "method_length defineSetter = 2"
| "method_length lookupGetter = 1"
| "method_length lookupSetter = 1"

definition builtin_methods :: "builtin_method list" where
  "builtin_methods =
     [hasOwnProperty, isPrototypeOf, propertyIsEnumerable, toLocaleString, toString,
      valueOf, defineGetter, defineSetter, lookupGetter, lookupSetter]"

text \<open>
  What a plain object inherits: \<^verbatim>\<open>__proto__\<close> is an accessor that returns the
  prototype of the object read, here \<^verbatim>\<open>Object.prototype\<close> itself;
  \<^verbatim>\<open>constructor\<close> is the function \<^verbatim>\<open>Object\<close>; the other ten names are the
  functions above.
\<close>

datatype inherited = ObjectPrototype | ObjectConstructor | Method builtin_method

definition Object_prototype :: "string \<Rightarrow> inherited option" where
  "Object_prototype key =
     (if key = ''__proto__'' then Some ObjectPrototype
      else if key = ''constructor'' then Some ObjectConstructor
      else map_option Method (find (\<lambda>m. method_name m = key) builtin_methods))"

fun intrinsic :: "inherited \<Rightarrow> jsvalue" where
  "intrinsic ObjectPrototype = Intrinsic ''Object.prototype''"
| "intrinsic ObjectConstructor = Intrinsic ''Object''"
| "intrinsic (Method m) = Intrinsic (''Object.prototype.'' @ method_name m)"

datatype 'a property = Own 'a | Inherited inherited

definition get :: "(string \<rightharpoonup> 'a) \<Rightarrow> string \<Rightarrow> 'a property option" where
  "get obj key =
     (case obj key of
        Some v \<Rightarrow> Some (Own v)
      | None \<Rightarrow> map_option Inherited (Object_prototype key))"

text \<open>
  Reading a property of one of the inherited objects. A function object has its own
  \<^verbatim>\<open>length\<close> and \<^verbatim>\<open>name\<close> (and \<^verbatim>\<open>Object\<close> its \<^verbatim>\<open>prototype\<close> and its
  static methods); then come the properties of \<^verbatim>\<open>Function.prototype\<close>, where
  \<^verbatim>\<open>caller\<close> and \<^verbatim>\<open>arguments\<close> are accessors that throw a \<^verbatim>\<open>TypeError\<close>;
  then those of \<^verbatim>\<open>Object.prototype\<close>, where \<^verbatim>\<open>__proto__\<close> now returns
  \<^verbatim>\<open>Function.prototype\<close>. On \<^verbatim>\<open>Object.prototype\<close> itself, whose prototype is
  \<^verbatim>\<open>null\<close>, \<^verbatim>\<open>__proto__\<close> returns \<^verbatim>\<open>null\<close>.
\<close>

definition Object_methods :: "string list" where
  "Object_methods =
     [''assign'', ''create'', ''defineProperties'', ''defineProperty'', ''entries'',
      ''freeze'', ''fromEntries'', ''getOwnPropertyDescriptor'',
      ''getOwnPropertyDescriptors'', ''getOwnPropertyNames'', ''getOwnPropertySymbols'',
      ''getPrototypeOf'', ''groupBy'', ''hasOwn'', ''is'', ''isExtensible'', ''isFrozen'',
      ''isSealed'', ''keys'', ''preventExtensions'', ''seal'', ''setPrototypeOf'',
      ''values'']"

definition Function_prototype_methods :: "string list" where
  "Function_prototype_methods = [''apply'', ''bind'', ''call'', ''toString'']"

definition function_get :: "string \<Rightarrow> js_error + jsvalue" where
  "function_get key =
     (if key \<in> set Function_prototype_methods
      then Inr (Intrinsic (''Function.prototype.'' @ key))
      else if key = ''constructor'' then Inr (Intrinsic ''Function'')
      else if key = ''caller'' \<or> key = ''arguments'' then Inl TypeError
      else if key = ''__proto__'' then Inr (Intrinsic ''Function.prototype'')
      else (case Object_prototype key of
              Some i \<Rightarrow> Inr (intrinsic i)
            | None \<Rightarrow> Inr JSUndefined))"

fun inherited_get :: "inherited \<Rightarrow> string \<Rightarrow> js_error + jsvalue" where
  "inherited_get ObjectPrototype key =
     (if key = ''__proto__'' then Inr JSNull
      else (case Object_prototype key of
              Some i \<Rightarrow> Inr (intrinsic i)
            | None \<Rightarrow> Inr JSUndefined))"
| "inherited_get ObjectConstructor key =
     (if key = ''length'' then Inr (JSNumber 1)
      else if key = ''name'' then Inr (JSString ''Object'')
      else if key = ''prototype'' then Inr (Intrinsic ''Object.prototype'')
      else if key \<in> set Object_methods then Inr (Intrinsic (''Object.'' @ key))
      else function_get key)"
| "inherited_get (Method m) key =
     (if key = ''length'' then Inr (JSNumber (method_length m))
      else if key = ''name'' then Inr (JSString (method_name m))
      else function_get key)"

text \<open>
  \<^verbatim>\<open>CODE_SOLUTIONS[lessonKey][exercise]\<close>, given what the first read returned.
\<close>

fun member :: "(string \<rightharpoonup> string) property \<Rightarrow> string \<Rightarrow> js_error + jsvalue" where
  "member (Own obj) key =
     (case get obj key of
        None \<Rightarrow> Inr JSUndefined
      | Some (Own text) \<Rightarrow> Inr (JSString text)
      | Some (Inherited i) \<Rightarrow> Inr (intrinsic i))"
| "member (Inherited i) key = inherited_get i key"

text \<open>
  The \<^verbatim>\<open>useMemo\<close> callback of the component. Every value the first read can return
  other than \<^verbatim>\<open>undefined\<close> is an object, so truthy in the test
  \<^verbatim>\<open>CODE_SOLUTIONS[lessonKey] && CODE_EXERCISES[lessonKey]\<close>. The solution is read
  before the template.
\<close>

record codes =
  codeSolution :: jsvalue
  codeTemplate :: jsvalue

definition useMemo ::
  "(string \<rightharpoonup> (string \<rightharpoonup> string)) \<Rightarrow> (string \<rightharpoonup> (string \<rightharpoonup> string)) \<Rightarrow>
   string \<Rightarrow> string \<Rightarrow> js_error + codes" where
  "useMemo CODE_SOLUTIONS CODE_EXERCISES lessonKey exercise =
     (case get CODE_SOLUTIONS lessonKey of
        None \<Rightarrow> Inr \<lparr>codeSolution = JSString [], codeTemplate = JSString []\<rparr>
      | Some solutions \<Rightarrow>
          (case get CODE_EXERCISES lessonKey of
             None \<Rightarrow> Inr \<lparr>codeSolution = JSString [], codeTemplate = JSString []\<rparr>
           | Some exercises \<Rightarrow>
               (case member solutions exercise of
                  Inl e \<Rightarrow> Inl e
                | Inr solution \<Rightarrow>
                    (case member exercises exercise of
                       Inl e \<Rightarrow> Inl e
                     | Inr template \<Rightarrow>
                         Inr \<lparr>codeSolution = solution, codeTemplate = template\<rparr>))))"

section \<open>The previous and the next lesson: \<^verbatim>\<open>LessonNavigation\<close>\<close>

text \<open>
  The fetched document is a list of lessons, each with an identifier, an index and a
  name. The component finds the first lesson whose identifier is \<^verbatim>\<open>lessonId\<close>,
  takes that lesson's \<^verbatim>\<open>index\<close> field less one as its position, and reads the
  two neighbouring positions. Reading \<^verbatim>\<open>.index\<close> of the \<^verbatim>\<open>undefined\<close> that
  \<^verbatim>\<open>find\<close> returns for no match throws a \<^verbatim>\<open>TypeError\<close>. An array read
  outside the array gives \<^verbatim>\<open>undefined\<close>.
\<close>

record lesson =
  lesson_id :: string
  lesson_index :: int
  lesson_name :: string

record pagination =
  prevLesson :: "lesson js"
  nextLesson :: "lesson js"

definition at_index :: "'a list \<Rightarrow> int \<Rightarrow> 'a js" where
  "at_index xs i = (if 0 \<le> i \<and> i < int (length xs) then Val (xs ! nat i) else Undefined)"

definition LessonNavigation :: "lesson list \<Rightarrow> string \<Rightarrow> js_error + pagination" where
  "LessonNavigation data lessonId =
     (case find (\<lambda>lesson. lesson_id lesson = lessonId) data of
        None \<Rightarrow> Inl TypeError
      | Some found \<Rightarrow>
          (let currentLessonIndex = lesson_index found - 1
           in Inr \<lparr>prevLesson =
                     (if currentLessonIndex > 0 then at_index data (currentLessonIndex - 1)
                      else Null),
                   nextLesson =
                     (if currentLessonIndex < int (length data) - 1
                      then at_index data (currentLessonIndex + 1)
                      else Null)\<rparr>))"

section \<open>Properties of the submission tracker\<close>

text \<open>
  C5. A correct submission leaves the attempt counter at 0 and the reveal flag false,
  whatever the state (and whatever the exercise name) it is made in.
\<close>

theorem submit_correct_resets:
  "tries (submissionHandler exercise True s) = 0 \<and>
   solutionViewer (submissionHandler exercise True s) = False"
  by (simp add: submissionHandler_def Let_def)

text \<open>
  C8. The solution button's handler sets the reveal flag to the value it is given and
  the attempt counter to 0; revealing and then hiding gives 0 after each of the two.
\<close>

theorem toggle_reveal_sets_flag_resets_tries:
  "solutionViewer (handleSolutionButtonClick reveal s) = reveal \<and>
   tries (handleSolutionButtonClick reveal s) = 0 \<and>
   tries (handleSolutionButtonClick True s) = 0 \<and>
   tries (handleSolutionButtonClick False (handleSolutionButtonClick True s)) = 0 \<and>
   solutionViewer (handleSolutionButtonClick True s) = True \<and>
   solutionViewer (handleSolutionButtonClick False (handleSolutionButtonClick True s)) = False"
  by (simp add: handleSolutionButtonClick_def)

text \<open>
  C2. After \<open>n\<close> incorrect submissions from the initial state the attempt counter is
  \<open>n\<close>, and the reveal flag is true exactly when the counter has exceeded 2, that is
  from the third incorrect submission on. The statement holds for every \<open>n\<close>, so also
  for every prefix of a run: the flag is false after 0, 1 and 2 incorrect submissions.
\<close>

theorem incorrect_run_reveals_after_two:
  "tries ((submissionHandler exercise False ^^ n) IdeComponent) = int n \<and>
   solutionViewer ((submissionHandler exercise False ^^ n) IdeComponent) =
     (2 < tries ((submissionHandler exercise False ^^ n) IdeComponent)) \<and>
   solutionViewer ((submissionHandler exercise False ^^ n) IdeComponent) = (3 \<le> n)"
proof (induction n)
  case 0
  show ?case by (simp add: IdeComponent_def)
next
  case (Suc n)
  then show ?case by (auto simp add: submissionHandler_def Let_def)
qed

text \<open>
  C3. A submission never lowers the completion counter. The counter changes only on a
  correct submission whose exercise number is a number strictly above the counter, and
  then the counter becomes that number.
\<close>

theorem submit_counter_monotone:
  "completedExerciseNumber s \<le> completedExerciseNumber (submissionHandler exercise isCorrect s) \<and>
   (completedExerciseNumber (submissionHandler exercise isCorrect s) \<noteq> completedExerciseNumber s \<longrightarrow>
      isCorrect \<and>
      parseInt (replace ''exercise'' '''' exercise) =
        Num (completedExerciseNumber (submissionHandler exercise isCorrect s)) \<and>
      completedExerciseNumber s < completedExerciseNumber (submissionHandler exercise isCorrect s)) \<and>
   (isCorrect \<and> parseInt (replace ''exercise'' '''' exercise) = Num n \<and>
    completedExerciseNumber s < n \<longrightarrow>
      completedExerciseNumber (submissionHandler exercise isCorrect s) = n)"
  by (auto simp add: submissionHandler_def Let_def split: jsnum.splits)

theorem submit_counter_monotone_witness:
  "completedExerciseNumber (submissionHandler ''exercise3'' True (IdeComponent\<lparr>completedExerciseNumber := 2\<rparr>))
     \<noteq> completedExerciseNumber (IdeComponent\<lparr>completedExerciseNumber := 2\<rparr>) \<and>
   parseInt (replace ''exercise'' '''' ''exercise3'') = Num 3 \<and>
   completedExerciseNumber (IdeComponent\<lparr>completedExerciseNumber := 2\<rparr>) < 3 \<and>
   completedExerciseNumber (submissionHandler ''exercise3'' True (IdeComponent\<lparr>completedExerciseNumber := 2\<rparr>)) = 3"
proof -
  have p: "parseInt (replace ''exercise'' '''' ''exercise3'') = Num 3"
    by code_simp
  have lt: "completedExerciseNumber (IdeComponent\<lparr>completedExerciseNumber := 2\<rparr>) < 3"
    by simp
  have "completedExerciseNumber
          (submissionHandler ''exercise3'' True (IdeComponent\<lparr>completedExerciseNumber := 2\<rparr>)) = 3"
    using submit_counter_monotone
            [of "IdeComponent\<lparr>completedExerciseNumber := 2\<rparr>" "''exercise3''" True 3] p lt
    by blast
  with p lt show ?thesis by simp
qed

text \<open>
  C9. An incorrect submission changes nothing but the attempt counter, which grows by
  one, and the reveal flag, which is set when the new counter exceeds 2: the completion
  counter and the calls made to the notifier are as before.
\<close>

theorem submit_incorrect_frame:
  "submissionHandler exercise False s =
     s\<lparr>solutionViewer := (if tries s + 1 > 2 then True else solutionViewer s),
       tries := tries s + 1\<rparr> \<and>
   completedExerciseNumber (submissionHandler exercise False s) = completedExerciseNumber s \<and>
   onComplete (submissionHandler exercise False s) = onComplete s"
  by (simp add: submissionHandler_def Let_def)

text \<open>
  C10. When the exercise name, with its first \<^verbatim>\<open>exercise\<close> removed, parses to
  \<^verbatim>\<open>NaN\<close>, a correct submission makes no call to the notifier and leaves the
  completion counter as it is; it still sets the attempt counter to 0 and the reveal
  flag to false, and changes nothing else.
\<close>

theorem submit_correct_nan:
  "parseInt (replace ''exercise'' '''' exercise) = NaN \<Longrightarrow>
   submissionHandler exercise True s = s\<lparr>solutionViewer := False, tries := 0\<rparr> \<and>
   onComplete (submissionHandler exercise True s) = onComplete s \<and>
   completedExerciseNumber (submissionHandler exercise True s) = completedExerciseNumber s \<and>
   tries (submissionHandler exercise True s) = 0 \<and>
   solutionViewer (submissionHandler exercise True s) = False"
  by (simp add: submissionHandler_def Let_def)

theorem submit_correct_nan_witness:
  "parseInt (replace ''exercise'' '''' ''exercise-one'') = NaN \<and>
   submissionHandler ''exercise-one'' True
       (IdeComponent\<lparr>tries := 2, solutionViewer := True, completedExerciseNumber := 1\<rparr>) =
     IdeComponent\<lparr>tries := 0, solutionViewer := False, completedExerciseNumber := 1\<rparr>"
proof -
  have h: "parseInt (replace ''exercise'' '''' ''exercise-one'') = NaN"
    by code_simp
  from submit_correct_nan [OF h,
      of "IdeComponent\<lparr>tries := 2, solutionViewer := True, completedExerciseNumber := 1\<rparr>"]
  show ?thesis using h by (simp add: IdeComponent_def)
qed

text \<open>
  The fallback of the lookup. When the lesson key is stored in neither or only one of
  the two mappings and is not a name that plain objects inherit, the guard fails and
  both results are the empty string.
\<close>

lemma useMemo_fallback:
  "CODE_SOLUTIONS lessonKey = None \<or> CODE_EXERCISES lessonKey = None \<Longrightarrow>
   Object_prototype lessonKey = None \<Longrightarrow>
   useMemo CODE_SOLUTIONS CODE_EXERCISES lessonKey exercise =
     Inr \<lparr>codeSolution = JSString '''', codeTemplate = JSString ''''\<rparr>"
  by (auto simp add: useMemo_def get_def split: option.splits)

text \<open>
  C7. The claim gives two empty strings for every lesson key that is missing from one
  of the two mappings. The code does not do that for the names every plain object
  inherits: with the lesson key \<^verbatim>\<open>constructor\<close>, stored in neither mapping, both
  reads of the guard return the function \<^verbatim>\<open>Object\<close>, the guard passes, and the
  solution and the template of \<^verbatim>\<open>exercise1\<close> are both \<^verbatim>\<open>undefined\<close>, not the
  empty string.
\<close>

theorem useMemo_inherited_lesson_key:
  "[''vrf'' \<mapsto> [''exercise1'' \<mapsto> ''contract A {}'']] ''constructor'' = None \<and>
   [''vrf'' \<mapsto> [''exercise1'' \<mapsto> ''contract {}'']] ''constructor'' = None \<and>
   useMemo [''vrf'' \<mapsto> [''exercise1'' \<mapsto> ''contract A {}'']]
           [''vrf'' \<mapsto> [''exercise1'' \<mapsto> ''contract {}'']] ''constructor'' ''exercise1'' =
     Inr \<lparr>codeSolution = JSUndefined, codeTemplate = JSUndefined\<rparr> \<and>
   useMemo [''vrf'' \<mapsto> [''exercise1'' \<mapsto> ''contract A {}'']]
           [''vrf'' \<mapsto> [''exercise1'' \<mapsto> ''contract {}'']] ''constructor'' ''exercise1'' \<noteq>
     Inr \<lparr>codeSolution = JSString '''', codeTemplate = JSString ''''\<rparr>"
  by (simp add: useMemo_def get_def Object_prototype_def builtin_methods_def function_get_def
        Function_prototype_methods_def Object_methods_def)

section \<open>The completion dialog\<close>

lemma handler_counter_mono:
  "completedExerciseNumber s \<le> completedExerciseNumber (handler ev s)"
  by (cases ev)
     (auto simp add: submissionHandler_def handleSolutionButtonClick_def Let_def
           split: jsnum.splits)

lemma useEffect_counter:
  "completedExerciseNumber (snd (useEffect s)) = completedExerciseNumber s"
  by (simp add: useEffect_def)

lemma dispatch_counter_mono:
  "completedExerciseNumber s \<le> completedExerciseNumber (snd (dispatch ev s))"
  by (simp add: dispatch_def Let_def useEffect_counter handler_counter_mono)

lemma dispatch_fires:
  "fst (dispatch ev s) =
     (completedExerciseNumber s \<noteq> 5 \<and> completedExerciseNumber (snd (dispatch ev s)) = 5)"
  by (auto simp add: dispatch_def Let_def useEffect_def)

text \<open>Once the counter is 5 or more, no later step opens the dialog.\<close>

lemma run_silent_from_5:
  "5 \<le> completedExerciseNumber s \<Longrightarrow> filter fst (run s evs) = []"
proof (induction evs arbitrary: s)
  case Nil
  show ?case by simp
next
  case (Cons ev evs)
  have m: "completedExerciseNumber s \<le> completedExerciseNumber (snd (dispatch ev s))"
    by (rule dispatch_counter_mono)
  with Cons.prems have "5 \<le> completedExerciseNumber (snd (dispatch ev s))" by simp
  then have rest: "filter fst (run (snd (dispatch ev s)) evs) = []" by (rule Cons.IH)
  have "\<not> fst (dispatch ev s)"
    unfolding dispatch_fires using Cons.prems m by arith
  with rest show ?case by simp
qed

lemma run_fires_at_most_once: "length (filter fst (run s evs)) \<le> 1"
proof (induction evs arbitrary: s)
  case Nil
  show ?case by simp
next
  case (Cons ev evs)
  show ?case
  proof (cases "fst (dispatch ev s)")
    case True
    then have "5 \<le> completedExerciseNumber (snd (dispatch ev s))"
      by (simp add: dispatch_fires)
    then have "filter fst (run (snd (dispatch ev s)) evs) = []" by (rule run_silent_from_5)
    with True show ?thesis by simp
  next
    case False
    with Cons.IH [of "snd (dispatch ev s)"] show ?thesis by simp
  qed
qed

lemma run_fires_once_iff:
  "(length (filter fst (run s evs)) = 1) =
     (completedExerciseNumber s \<noteq> 5 \<and>
      (\<exists>r \<in> set (run s evs). completedExerciseNumber (snd r) = 5))"
proof (induction evs arbitrary: s)
  case Nil
  show ?case by simp
next
  case (Cons ev evs)
  let ?r = "dispatch ev s"
  show ?case
  proof (cases "fst ?r")
    case True
    then have five: "completedExerciseNumber s \<noteq> 5" "completedExerciseNumber (snd ?r) = 5"
      by (simp_all add: dispatch_fires)
    then have "filter fst (run (snd ?r) evs) = []" by (simp add: run_silent_from_5)
    with True five show ?thesis by simp
  next
    case False
    show ?thesis
    proof (cases "completedExerciseNumber s = 5")
      case True
      then have "5 \<le> completedExerciseNumber (snd ?r)"
        using dispatch_counter_mono [of s ev] by simp
      then have "filter fst (run (snd ?r) evs) = []" by (rule run_silent_from_5)
      with False True show ?thesis by simp
    next
      case ne: False
      with False have "completedExerciseNumber (snd ?r) \<noteq> 5"
        by (simp add: dispatch_fires)
      with False ne Cons.IH [of "snd ?r"] show ?thesis by simp
    qed
  qed
qed

lemma mount_silent: "useEffect IdeComponent = (False, IdeComponent)"
  by (simp add: useEffect_def IdeComponent_def)

text \<open>
  C4, as the claim states it, fails: a session need not open the dialog at all. In the
  session whose only event is a correct submission of \<^verbatim>\<open>exercise1\<close>, the counter
  goes from 0 to 1 and the dialog is opened zero times, not once.
\<close>

theorem lesson_finished_not_exactly_once:
  "length (filter fst (session [Submission ''exercise1'' True])) = 0 \<and>
   length (filter fst (session [Submission ''exercise1'' True])) \<noteq> 1"
  by code_simp

text \<open>
  C4, amended. A step opens the dialog exactly when it takes the completion counter
  from a value other than 5 to 5; the mount does not open it. So over every session the
  dialog is opened at most once: once when some step brings the counter to 5, never
  when no step does, and not again on any later step, whether that step leaves the
  counter as it is or not.
\<close>

theorem lesson_finished_signal:
  "fst (dispatch ev s) =
     (completedExerciseNumber s \<noteq> 5 \<and> completedExerciseNumber (snd (dispatch ev s)) = 5) \<and>
   \<not> fst (session evs ! 0) \<and>
   length (filter fst (session evs)) \<le> 1 \<and>
   (length (filter fst (session evs)) = 1) =
     (\<exists>r \<in> set (session evs). completedExerciseNumber (snd r) = 5)"
proof -
  have c0: "completedExerciseNumber IdeComponent \<noteq> 5"
    by (simp add: IdeComponent_def)
  have once: "(length (filter fst (run IdeComponent evs)) = 1) =
     (\<exists>r \<in> set (run IdeComponent evs). completedExerciseNumber (snd r) = 5)"
    using run_fires_once_iff [of IdeComponent evs] c0 by simp
  have most: "length (filter fst (run IdeComponent evs)) \<le> 1"
    by (rule run_fires_at_most_once)
  have sess: "session evs = (False, IdeComponent) # run IdeComponent evs"
    by (simp add: session_def mount_silent)
  show ?thesis
    using once most c0 dispatch_fires [of ev s] by (simp add: sess)
qed

theorem lesson_finished_signal_witness:
  "(\<exists>r \<in> set (session [Submission ''exercise5'' True, Submission ''exercise5'' True,
                        ModalClose, Submission ''exercise6'' True]).
      completedExerciseNumber (snd r) = 5) \<and>
   length (filter fst (session [Submission ''exercise5'' True, Submission ''exercise5'' True,
                                ModalClose, Submission ''exercise6'' True])) = 1 \<and>
   fst (dispatch (Submission ''exercise5'' True) IdeComponent)"
proof -
  have h: "\<exists>r \<in> set (session [Submission ''exercise5'' True, Submission ''exercise5'' True,
                               ModalClose, Submission ''exercise6'' True]).
             completedExerciseNumber (snd r) = 5"
    by code_simp
  have t: "completedExerciseNumber IdeComponent \<noteq> 5 \<and>
           completedExerciseNumber (snd (dispatch (Submission ''exercise5'' True) IdeComponent)) = 5"
    by code_simp
  from lesson_finished_signal
         [of "Submission ''exercise5'' True" IdeComponent
             "[Submission ''exercise5'' True, Submission ''exercise5'' True,
               ModalClose, Submission ''exercise6'' True]"] h t
  show ?thesis by blast
qed

section \<open>Properties of the lesson navigation\<close>

text \<open>
  C6. When no lesson of the list has the identifier asked for, the lookup fails with
  the \<^verbatim>\<open>TypeError\<close>; it returns no pair of neighbours.
\<close>

theorem LessonNavigation_not_found:
  "\<forall>lesson \<in> set data. lesson_id lesson \<noteq> lessonId \<Longrightarrow>
   LessonNavigation data lessonId = Inl TypeError"
proof -
  assume "\<forall>lesson \<in> set data. lesson_id lesson \<noteq> lessonId"
  then have "find (\<lambda>lesson. lesson_id lesson = lessonId) data = None"
    by (simp add: find_None_iff)
  then show ?thesis by (simp add: LessonNavigation_def)
qed

theorem LessonNavigation_not_found_witness:
  "LessonNavigation [\<lparr>lesson_id = ''a'', lesson_index = 1, lesson_name = ''A''\<rparr>,
                     \<lparr>lesson_id = ''b'', lesson_index = 2, lesson_name = ''B''\<rparr>] ''d'' =
     Inl TypeError \<and>
   LessonNavigation [] ''a'' = Inl TypeError"
proof -
  have h: "\<forall>lesson \<in> set [\<lparr>lesson_id = ''a'', lesson_index = 1, lesson_name = ''A''\<rparr>,
                           \<lparr>lesson_id = ''b'', lesson_index = 2, lesson_name = ''B''\<rparr>].
             lesson_id lesson \<noteq> ''d''"
    by simp
  have e: "\<forall>lesson \<in> set ([] :: lesson list). lesson_id lesson \<noteq> ''a''"
    by simp
  from LessonNavigation_not_found [OF h] LessonNavigation_not_found [OF e]
  show ?thesis by blast
qed

text \<open>
  C1, as the claim states it, fails: the position is taken from the matched lesson's
  \<^verbatim>\<open>index\<close> field, not from where the lesson stands. In the list with ids a, b, c
  and indices 0, 1, 2, the lesson b stands between a and c, yet resolving b gives
  \<^verbatim>\<open>null\<close> as the previous lesson and b itself as the next one.
\<close>

theorem LessonNavigation_index_not_position:
  "LessonNavigation
     [\<lparr>lesson_id = ''a'', lesson_index = 0, lesson_name = ''A''\<rparr>,
      \<lparr>lesson_id = ''b'', lesson_index = 1, lesson_name = ''B''\<rparr>,
      \<lparr>lesson_id = ''c'', lesson_index = 2, lesson_name = ''C''\<rparr>] ''b'' =
     Inr \<lparr>prevLesson = Null,
          nextLesson = Val \<lparr>lesson_id = ''b'', lesson_index = 1, lesson_name = ''B''\<rparr>\<rparr> \<and>
   LessonNavigation
     [\<lparr>lesson_id = ''a'', lesson_index = 0, lesson_name = ''A''\<rparr>,
      \<lparr>lesson_id = ''b'', lesson_index = 1, lesson_name = ''B''\<rparr>,
      \<lparr>lesson_id = ''c'', lesson_index = 2, lesson_name = ''C''\<rparr>] ''b'' \<noteq>
     Inr \<lparr>prevLesson = Val \<lparr>lesson_id = ''a'', lesson_index = 0, lesson_name = ''A''\<rparr>,
          nextLesson = Val \<lparr>lesson_id = ''c'', lesson_index = 2, lesson_name = ''C''\<rparr>\<rparr>"
  by (simp add: LessonNavigation_def at_index_def Let_def)

text \<open>
  C1, amended. Let the first lesson of the list whose identifier is the one asked for
  stand at position \<open>i\<close> (counted from 0) and carry \<open>i + 1\<close> as its index field. Then
  the lookup returns the entry just before it as the previous lesson, \<^verbatim>\<open>null\<close>
  when it is the first of the list, and the entry just after it as the next lesson,
  \<^verbatim>\<open>null\<close> when it is the last. In particular, on the list with ids a, b, c and
  indices 1, 2, 3: b has a before and c after, a has \<^verbatim>\<open>null\<close> before, c has
  \<^verbatim>\<open>null\<close> after.
\<close>

theorem LessonNavigation_neighbours:
  "(i < length data \<and> lesson_id (data ! i) = lessonId \<and>
    (\<forall>j<i. lesson_id (data ! j) \<noteq> lessonId) \<and> lesson_index (data ! i) = int i + 1 \<longrightarrow>
    LessonNavigation data lessonId =
      Inr \<lparr>prevLesson = (if i = 0 then Null else Val (data ! (i - 1))),
           nextLesson = (if i = length data - 1 then Null else Val (data ! (i + 1)))\<rparr>) \<and>
   LessonNavigation
     [\<lparr>lesson_id = ''a'', lesson_index = 1, lesson_name = na\<rparr>,
      \<lparr>lesson_id = ''b'', lesson_index = 2, lesson_name = nb\<rparr>,
      \<lparr>lesson_id = ''c'', lesson_index = 3, lesson_name = nc\<rparr>] ''b'' =
     Inr \<lparr>prevLesson = Val \<lparr>lesson_id = ''a'', lesson_index = 1, lesson_name = na\<rparr>,
          nextLesson = Val \<lparr>lesson_id = ''c'', lesson_index = 3, lesson_name = nc\<rparr>\<rparr> \<and>
   LessonNavigation
     [\<lparr>lesson_id = ''a'', lesson_index = 1, lesson_name = na\<rparr>,
      \<lparr>lesson_id = ''b'', lesson_index = 2, lesson_name = nb\<rparr>,
      \<lparr>lesson_id = ''c'', lesson_index = 3, lesson_name = nc\<rparr>] ''a'' =
     Inr \<lparr>prevLesson = Null,
          nextLesson = Val \<lparr>lesson_id = ''b'', lesson_index = 2, lesson_name = nb\<rparr>\<rparr> \<and>
   LessonNavigation
     [\<lparr>lesson_id = ''a'', lesson_index = 1, lesson_name = na\<rparr>,
      \<lparr>lesson_id = ''b'', lesson_index = 2, lesson_name = nb\<rparr>,
      \<lparr>lesson_id = ''c'', lesson_index = 3, lesson_name = nc\<rparr>] ''c'' =
     Inr \<lparr>prevLesson = Val \<lparr>lesson_id = ''b'', lesson_index = 2, lesson_name = nb\<rparr>,
          nextLesson = Null\<rparr>"
proof (intro conjI impI)
  assume a: "i < length data \<and> lesson_id (data ! i) = lessonId \<and>
    (\<forall>j<i. lesson_id (data ! j) \<noteq> lessonId) \<and> lesson_index (data ! i) = int i + 1"
  then have i: "i < length data" and idx: "lesson_index (data ! i) = int i + 1"
    by simp_all
  have f: "find (\<lambda>lesson. lesson_id lesson = lessonId) data = Some (data ! i)"
    unfolding find_Some_iff using a by blast
  have p: "0 < i \<Longrightarrow> at_index data (int i - 1) = Val (data ! (i - 1))"
    using i by (simp add: at_index_def nat_diff_distrib')
  have n: "i \<noteq> length data - 1 \<Longrightarrow> at_index data (int i + 1) = Val (data ! (i + 1))"
    using i by (simp add: at_index_def nat_add_distrib)
  show "LessonNavigation data lessonId =
      Inr \<lparr>prevLesson = (if i = 0 then Null else Val (data ! (i - 1))),
           nextLesson = (if i = length data - 1 then Null else Val (data ! (i + 1)))\<rparr>"
    using i p n by (auto simp add: LessonNavigation_def f idx Let_def)
qed (simp_all add: LessonNavigation_def at_index_def Let_def)

theorem LessonNavigation_neighbours_witness:
  "LessonNavigation
     [\<lparr>lesson_id = ''a'', lesson_index = 1, lesson_name = ''A''\<rparr>,
      \<lparr>lesson_id = ''b'', lesson_index = 2, lesson_name = ''B''\<rparr>,
      \<lparr>lesson_id = ''c'', lesson_index = 3, lesson_name = ''C''\<rparr>] ''b'' =
     Inr \<lparr>prevLesson = Val \<lparr>lesson_id = ''a'', lesson_index = 1, lesson_name = ''A''\<rparr>,
          nextLesson = Val \<lparr>lesson_id = ''c'', lesson_index = 3, lesson_name = ''C''\<rparr>\<rparr>"
proof -
  let ?data = "[\<lparr>lesson_id = ''a'', lesson_index = 1, lesson_name = ''A''\<rparr>,
                \<lparr>lesson_id = ''b'', lesson_index = 2, lesson_name = ''B''\<rparr>,
                \<lparr>lesson_id = ''c'', lesson_index = 3, lesson_name = ''C''\<rparr>]"
  have h: "(1::nat) < length ?data \<and> lesson_id (?data ! 1) = ''b'' \<and>
           (\<forall>j<(1::nat). lesson_id (?data ! j) \<noteq> ''b'') \<and>
           lesson_index (?data ! 1) = int 1 + 1"
    by simp
  from LessonNavigation_neighbours [of 1 ?data "''b''", THEN conjunct1, rule_format, OF h]
  show ?thesis by simp
qed

end
